theory Spec2Isabelle
  imports Complex_Main "HOL-Library.Multiset"
begin

section \<open>The learner process of mini-AlphaStar\<close>

text \<open>
  A shallow embedding of \<^verbatim>\<open>alphastarmini/core/rl/learner_process.py\<close>: the class
  \<^verbatim>\<open>LearnerProcess\<close> with its three trajectory pools, the two sampling methods
  \<^verbatim>\<open>get_normal_trajectories\<close> and \<^verbatim>\<open>get_mixed_trajectories\<close>, the update step
  \<^verbatim>\<open>update_parameters\<close> and the background loop \<^verbatim>\<open>run\<close>.

  A method of the class is a function from the object's state to a result and the
  state afterwards. A Python exception is a value: every method returns
  \<open>(exn + 'r) \<times> state\<close>, the left injection being the exception raised, and the state
  next to it being the object as the exception leaves it (attributes assigned before
  the \<^verbatim>\<open>raise\<close> stay assigned).
\<close>

subsection \<open>Python values\<close>

text \<open>
  Exceptions. \<open>AssertionError\<close> is what a failing \<^verbatim>\<open>assert\<close> raises. \<open>Exception\<close> stands
  for any other exception derived from Python's \<^verbatim>\<open>Exception\<close> (raised by the loss
  function, the optimizer or the checkpoint write), \<open>BaseException\<close> for one that is
  not (\<^verbatim>\<open>KeyboardInterrupt\<close>, \<^verbatim>\<open>SystemExit\<close>): \<^verbatim>\<open>except Exception\<close> catches the first
  two only.
\<close>

datatype exn = AssertionError | Exception string | BaseException string

fun is_Exception :: "exn \<Rightarrow> bool" where
  "is_Exception AssertionError = True"
| "is_Exception (Exception msg) = True"
| "is_Exception (BaseException msg) = False"

text \<open>
  Slices. Python normalises a slice bound \<open>i\<close> against the length \<open>n\<close>: a negative
  bound counts from the end, and the result is clamped to \<open>0..n\<close>. No slice raises.
\<close>

definition slice_index :: "int \<Rightarrow> nat \<Rightarrow> nat" where
  "slice_index i n = (if i < 0 then nat (i + int n) else min (nat i) n)"

definition py_prefix :: "int \<Rightarrow> 'a list \<Rightarrow> 'a list" where
  \<comment> \<open>\<^verbatim>\<open>xs[:i]\<close>\<close>
  "py_prefix i xs = take (slice_index i (length xs)) xs"

definition py_suffix :: "int \<Rightarrow> 'a list \<Rightarrow> 'a list" where
  \<comment> \<open>\<^verbatim>\<open>xs[i:]\<close>\<close>
  "py_suffix i xs = drop (slice_index i (length xs)) xs"

definition py_slice :: "int \<Rightarrow> int \<Rightarrow> 'a list \<Rightarrow> 'a list" where
  \<comment> \<open>\<^verbatim>\<open>xs[i:j]\<close>\<close>
  "py_slice i j xs =
     (let lo = slice_index i (length xs); hi = slice_index j (length xs)
      in take (hi - lo) (drop lo xs))"

definition py_range :: "int \<Rightarrow> int list" where
  \<comment> \<open>\<^verbatim>\<open>range(n)\<close>: empty when \<open>n \<le> 0\<close>\<close>
  "py_range n = map int [0..<nat n]"

text \<open>
  \<^verbatim>\<open>int(n * r)\<close> for an integer \<open>n\<close> and the decimal ratio \<open>r = p / q\<close>: the product
  truncated towards zero. The source multiplies by the floating-point constants
  \<^verbatim>\<open>0.2\<close> and \<^verbatim>\<open>0.1\<close>; both doubles lie just above the decimal they denote, and for
  every \<open>n\<close> below \<open>2 ^ 50\<close> in magnitude the truncated double product is the
  truncated exact product, so the model computes with the exact one.
\<close>

definition py_int_times :: "int \<Rightarrow> int \<Rightarrow> int \<Rightarrow> int" where
  "py_int_times n p q = sgn n * ((\<bar>n\<bar> * p) div q)"

subsection \<open>The state of a learner and of its surroundings\<close>

text \<open>
  \<^verbatim>\<open>Arch_Hyper_Parameters\<close> (imported as \<^verbatim>\<open>AHP\<close>) is not part of this file of the
  repository; the two constants the learner reads from it are parameters of the model.
\<close>

record hyper_parameters =
  batch_size :: int
  sequence_length :: int

text \<open>
  The attributes of \<^verbatim>\<open>LearnerProcess\<close> that its methods read or assign, with the
  objects it owns flattened in: \<open>agent_steps\<close> is \<^verbatim>\<open>self.learner.steps\<close>, \<open>agent_model\<close>
  the parameters of \<^verbatim>\<open>self.learner.agent_nn.model\<close> together with the optimizer's
  state, \<open>model_training\<close> whether the model is in training mode (\<^verbatim>\<open>train()\<close>) or in
  evaluation mode (\<^verbatim>\<open>eval()\<close>), \<open>writer\<close> the scalars handed to the summary writer
  (tag, value, step) and \<open>saved\<close> the content of the checkpoint file at \<^verbatim>\<open>SAVE_PATH\<close>.
  The last two fields count the calls made so far to \<^verbatim>\<open>random.shuffle\<close> and to
  \<^verbatim>\<open>time()\<close>: the surroundings answer the k-th call of each.
\<close>

record ('a, 'm) learner_process =
  trajectories :: "'a list"
  final_trajectories :: "'a list"
  win_trajectories :: "'a list"
  max_time_for_training :: real
  is_running :: bool
  is_rl_training :: bool
  use_opponent_state :: bool
  no_replay_learn :: bool
  num_epochs :: int
  count_of_batches :: int
  buffer_size :: int
  use_random_sample :: bool
  only_update_baseline :: bool
  agent_steps :: int
  agent_model :: 'm
  model_training :: bool
  writer :: "(string \<times> real \<times> int) list"
  saved :: "'m option"
  shuffle_calls :: nat
  time_calls :: nat

text \<open>
  What the learner calls and does not define: the hyper-parameters, the random
  permutation chosen by the k-th \<^verbatim>\<open>random.shuffle\<close>, the reading of the k-th
  \<^verbatim>\<open>time()\<close>, the loss function of \<^verbatim>\<open>rl_loss\<close> (it returns the loss and the
  dictionary of its components, or raises), the optimizer step (\<^verbatim>\<open>zero_grad\<close>,
  \<^verbatim>\<open>backward\<close>, \<^verbatim>\<open>step\<close>: the new parameters, or an exception) and \<^verbatim>\<open>torch.save\<close>
  (which may raise). Printing, the summary writer and the switches between training
  and evaluation mode are taken not to raise.
\<close>

record ('a, 'm) world =
  AHP :: hyper_parameters
  random_shuffle :: "nat \<Rightarrow> 'a list \<Rightarrow> 'a list"
  time :: "nat \<Rightarrow> real"
  loss_function :: "'m \<Rightarrow> 'a list \<Rightarrow> bool \<Rightarrow> bool \<Rightarrow> bool \<Rightarrow> exn + (real \<times> (string \<times> real) list)"
  optimizer_step :: "'m \<Rightarrow> 'a list \<Rightarrow> exn + 'm"
  torch_save :: "'m \<Rightarrow> exn option"

text \<open>\<^verbatim>\<open>random.shuffle\<close> permutes its argument: it neither loses nor invents an element.\<close>

definition permuting :: "('a, 'm) world \<Rightarrow> bool" where
  "permuting w = (\<forall>k xs. mset (random_shuffle w k xs) = mset xs)"

subsection \<open>The producers' side\<close>

definition send_trajectory :: "'a \<Rightarrow> ('a, 'm) learner_process \<Rightarrow> ('a, 'm) learner_process" where
  "send_trajectory trajectory s = s\<lparr>trajectories := trajectories s @ [trajectory]\<rparr>"

definition send_final_trajectory :: "'a \<Rightarrow> ('a, 'm) learner_process \<Rightarrow> ('a, 'm) learner_process" where
  "send_final_trajectory trajectory s =
     s\<lparr>final_trajectories := final_trajectories s @ [trajectory]\<rparr>"

definition send_win_trajectory :: "'a \<Rightarrow> ('a, 'm) learner_process \<Rightarrow> ('a, 'm) learner_process" where
  "send_win_trajectory trajectory s =
     s\<lparr>win_trajectories := win_trajectories s @ [trajectory]\<rparr>"

subsection \<open>Sampling\<close>

definition sample_size :: "hyper_parameters \<Rightarrow> ('a, 'm) learner_process \<Rightarrow> int" where
  "sample_size hp s = count_of_batches s * batch_size hp"

text \<open>
  \<^verbatim>\<open>get_normal_trajectories\<close>: the first \<open>sample_size\<close> trajectories of the ordinary
  pool. The assertion comes before the assignment to \<^verbatim>\<open>self.trajectories\<close>.
\<close>

definition get_normal_trajectories ::
  "hyper_parameters \<Rightarrow> ('a, 'm) learner_process \<Rightarrow> (exn + 'a list) \<times> ('a, 'm) learner_process" where
  "get_normal_trajectories hp s =
     (let batch = [] @ py_prefix (sample_size hp s) (trajectories s)
      in if int (length batch) \<noteq> sample_size hp s then (Inl AssertionError, s)
         else (Inr batch,
               if length (trajectories s) > 0
               then s\<lparr>trajectories := py_suffix (sample_size hp s) (trajectories s)\<rparr>
               else s))"

text \<open>
  \<^verbatim>\<open>get_mixed_trajectories\<close>. The two quotas are computed with \<^verbatim>\<open>min\<close>, as the source
  has it: \<^verbatim>\<open>min(1, int(sample_size * split_ratio[1]))\<close> for the final pool and
  \<^verbatim>\<open>min(1, int(sample_size * split_ratio[2]))\<close> for the win pool, with
  \<^verbatim>\<open>split_ratio = [0.7, 0.2, 0.1]\<close>.
\<close>

definition sample_final :: "hyper_parameters \<Rightarrow> ('a, 'm) learner_process \<Rightarrow> int" where
  "sample_final hp s = min 1 (py_int_times (sample_size hp s) 2 10)"

definition sample_win :: "hyper_parameters \<Rightarrow> ('a, 'm) learner_process \<Rightarrow> int" where
  "sample_win hp s = min 1 (py_int_times (sample_size hp s) 1 10)"

text \<open>
  The block on the win pool (the first \<^verbatim>\<open>if\<close> of the method): shuffle in place, read
  the first \<open>sample_win\<close> elements, and cut them off the pool only when the pool holds
  more than 128. It returns \<^verbatim>\<open>trajectories_win\<close> (nothing when the pool is empty).
\<close>

definition take_win ::
  "('a, 'm) world \<Rightarrow> ('a, 'm) learner_process \<Rightarrow> 'a list \<times> ('a, 'm) learner_process" where
  "take_win w s =
     (if length (win_trajectories s) > 0 then
        let s1 = s\<lparr>win_trajectories := random_shuffle w (shuffle_calls s) (win_trajectories s),
                   shuffle_calls := shuffle_calls s + 1\<rparr>;
            trajectories_win = py_prefix (sample_win (AHP w) s) (win_trajectories s1)
        in (trajectories_win,
            if length (win_trajectories s1) > 128
            then s1\<lparr>win_trajectories := py_suffix (sample_win (AHP w) s) (win_trajectories s1)\<rparr>
            else s1)
      else ([], s))"

text \<open>The block on the final pool: the same with the quota \<open>sample_final\<close> and 64.\<close>

definition take_final ::
  "('a, 'm) world \<Rightarrow> ('a, 'm) learner_process \<Rightarrow> 'a list \<times> ('a, 'm) learner_process" where
  "take_final w s =
     (if length (final_trajectories s) > 0 then
        let s1 = s\<lparr>final_trajectories := random_shuffle w (shuffle_calls s) (final_trajectories s),
                   shuffle_calls := shuffle_calls s + 1\<rparr>;
            trajectories_final = py_prefix (sample_final (AHP w) s) (final_trajectories s1)
        in (trajectories_final,
            if length (final_trajectories s1) > 64
            then s1\<lparr>final_trajectories := py_suffix (sample_final (AHP w) s) (final_trajectories s1)\<rparr>
            else s1)
      else ([], s))"

text \<open>The optional shuffle of the ordinary pool.\<close>

definition shuffle_ordinary ::
  "('a, 'm) world \<Rightarrow> ('a, 'm) learner_process \<Rightarrow> ('a, 'm) learner_process" where
  "shuffle_ordinary w s =
     (if use_random_sample s
      then s\<lparr>trajectories := random_shuffle w (shuffle_calls s) (trajectories s),
             shuffle_calls := shuffle_calls s + 1\<rparr>
      else s)"

text \<open>
  \<open>reduce_sample_size\<close> is the source's variable of that name when the ordinary pool
  is read: the sample size less what the win and final blocks have read.
\<close>

definition reduce_sample_size :: "('a, 'm) world \<Rightarrow> ('a, 'm) learner_process \<Rightarrow> int" where
  "reduce_sample_size w s =
     (let (trajectories_win, s1) = take_win w s;
          (trajectories_final, s2) = take_final w s1
      in sample_size (AHP w) s - int (length trajectories_win) - int (length trajectories_final))"

definition get_mixed_trajectories ::
  "('a, 'm) world \<Rightarrow> ('a, 'm) learner_process \<Rightarrow> (exn + 'a list) \<times> ('a, 'm) learner_process" where
  "get_mixed_trajectories w s =
     (let (trajectories_win, s1) = take_win w s;
          (trajectories_final, s2) = take_final w s1;
          s3 = shuffle_ordinary w s2;
          trajectories_reduced = py_prefix (reduce_sample_size w s) (trajectories s3);
          batch = ([] @ trajectories_win) @ trajectories_final @ trajectories_reduced
      in if int (length batch) \<noteq> sample_size (AHP w) s then (Inl AssertionError, s3)
         else (Inr batch,
               if length (trajectories s3) > 0
               then s3\<lparr>trajectories := py_suffix (reduce_sample_size w s) (trajectories s3)\<rparr>
               else s3))"

subsection \<open>The update step\<close>

text \<open>
  The body of the inner loop of \<^verbatim>\<open>update_parameters\<close> for one \<^verbatim>\<open>batch_id\<close>: slice the
  mini-batch, compute the loss, write its components, step the optimizer, write the
  loss, advance the step counter. An exception of the loss function or of the
  optimizer leaves the body before the counter is advanced.
\<close>

definition train_batch ::
  "('a, 'm) world \<Rightarrow> 'a list \<Rightarrow> ('a, 'm) learner_process \<Rightarrow> int
     \<Rightarrow> (exn + unit) \<times> ('a, 'm) learner_process" where
  "train_batch w sampled s batch_id =
     (let update_trajectories =
            py_slice (batch_id * batch_size (AHP w)) ((batch_id + 1) * batch_size (AHP w)) sampled
      in case loss_function w (agent_model s) update_trajectories
                (use_opponent_state s) (no_replay_learn s) (only_update_baseline s) of
           Inl e \<Rightarrow> (Inl e, s)
         | Inr (loss, loss_dict) \<Rightarrow>
             let s1 = s\<lparr>writer := writer s @
                          map (\<lambda>(i, k). (''learner/'' @ i, k, agent_steps s)) loss_dict\<rparr>
             in (case optimizer_step w (agent_model s1) update_trajectories of
                   Inl e \<Rightarrow> (Inl e, s1)
                 | Inr m \<Rightarrow>
                     (Inr (),
                      s1\<lparr>agent_model := m,
                         writer := writer s1 @ [(''learner/loss'', loss, agent_steps s1)],
                         agent_steps := agent_steps s1
                           + batch_size (AHP w) * sequence_length (AHP w)\<rparr>)))"

text \<open>The inner loop, over \<^verbatim>\<open>range(self.count_of_batches)\<close>.\<close>

fun for_batches ::
  "('a, 'm) world \<Rightarrow> 'a list \<Rightarrow> int list \<Rightarrow> ('a, 'm) learner_process
     \<Rightarrow> (exn + unit) \<times> ('a, 'm) learner_process" where
  "for_batches w sampled [] s = (Inr (), s)"
| "for_batches w sampled (batch_id # rest) s =
     (case train_batch w sampled s batch_id of
        (Inl e, s1) \<Rightarrow> (Inl e, s1)
      | (Inr u, s1) \<Rightarrow> for_batches w sampled rest s1)"

text \<open>The outer loop, over \<^verbatim>\<open>range(self.num_epochs)\<close>.\<close>

fun for_epochs ::
  "('a, 'm) world \<Rightarrow> 'a list \<Rightarrow> int list \<Rightarrow> ('a, 'm) learner_process
     \<Rightarrow> (exn + unit) \<times> ('a, 'm) learner_process" where
  "for_epochs w sampled [] s = (Inr (), s)"
| "for_epochs w sampled (ep_id # rest) s =
     (case for_batches w sampled (py_range (count_of_batches s)) s of
        (Inl e, s1) \<Rightarrow> (Inl e, s1)
      | (Inr u, s1) \<Rightarrow> for_epochs w sampled rest s1)"

text \<open>
  \<^verbatim>\<open>update_parameters\<close>. The sample is drawn by \<^verbatim>\<open>get_normal_trajectories\<close>; the call
  of \<^verbatim>\<open>get_mixed_trajectories\<close> is commented out in the source.
\<close>

definition update_parameters ::
  "('a, 'm) world \<Rightarrow> ('a, 'm) learner_process \<Rightarrow> (exn + unit) \<times> ('a, 'm) learner_process" where
  "update_parameters w s =
     (if \<not> is_rl_training s then (Inr (), s)
      else case get_normal_trajectories (AHP w) s of
             (Inl e, s1) \<Rightarrow> (Inl e, s1)
           | (Inr sampled, s1) \<Rightarrow>
               (case for_epochs w sampled (py_range (num_epochs s1))
                       (s1\<lparr>model_training := True\<rparr>) of
                  (Inl e, s2) \<Rightarrow> (Inl e, s2)
                | (Inr u, s2) \<Rightarrow>
                    (case torch_save w (agent_model s2) of
                       Some e \<Rightarrow> (Inl e, s2)
                     | None \<Rightarrow>
                         (Inr (), s2\<lparr>saved := Some (agent_model s2),
                                     model_training := False\<rparr>))))"

subsection \<open>The background loop\<close>

text \<open>
  The body of the inner \<^verbatim>\<open>try\<close> of \<^verbatim>\<open>run\<close>: update when the ordinary pool has reached
  \<^verbatim>\<open>buffer_size * count_of_batches * batch_size\<close>, then sleep. The time slept shows in
  the next reading of the clock only.
\<close>

definition iteration ::
  "('a, 'm) world \<Rightarrow> ('a, 'm) learner_process \<Rightarrow> (exn + unit) \<times> ('a, 'm) learner_process" where
  "iteration w s =
     (if int (length (trajectories s))
           \<ge> buffer_size s * count_of_batches s * batch_size (AHP w)
      then update_parameters w s
      else (Inr (), s))"

text \<open>
  The \<^verbatim>\<open>while\<close> loop. Whether it ends depends on the clock, so the model takes fuel:
  one unit for each evaluation of the loop test, \<open>None\<close> when the fuel is used up
  before the loop has ended. The test reads the clock once. An exception of the body
  that derives from \<^verbatim>\<open>Exception\<close> is caught by the inner handler, which breaks; any
  other leaves the loop as it is raised.
\<close>

fun while_loop ::
  "nat \<Rightarrow> ('a, 'm) world \<Rightarrow> real \<Rightarrow> ('a, 'm) learner_process
     \<Rightarrow> ((exn + unit) \<times> ('a, 'm) learner_process) option" where
  "while_loop 0 w start_time s = None"
| "while_loop (Suc fuel) w start_time s =
     (let now = time w (time_calls s);
          s1 = s\<lparr>time_calls := time_calls s + 1\<rparr>
      in if now - start_time < max_time_for_training s1 then
           (case iteration w s1 of
              (Inl e, s2) \<Rightarrow>
                if is_Exception e then Some (Inr (), s2) else Some (Inl e, s2)
            | (Inr u, s2) \<Rightarrow> while_loop fuel w start_time s2)
         else Some (Inr (), s1))"

text \<open>
  \<^verbatim>\<open>run\<close>: read the start time, set the flag, loop; the outer handler swallows what
  derives from \<^verbatim>\<open>Exception\<close>, and the \<^verbatim>\<open>finally\<close> clause clears the flag whatever
  happened.
\<close>

definition run ::
  "nat \<Rightarrow> ('a, 'm) world \<Rightarrow> ('a, 'm) learner_process
     \<Rightarrow> ((exn + unit) \<times> ('a, 'm) learner_process) option" where
  "run fuel w s =
     (let start_time = time w (time_calls s);
          s1 = s\<lparr>time_calls := time_calls s + 1, is_running := True\<rparr>
      in case while_loop fuel w start_time s1 of
           None \<Rightarrow> None
         | Some (Inl e, s2) \<Rightarrow>
             Some (if is_Exception e then Inr () else Inl e, s2\<lparr>is_running := False\<rparr>)
         | Some (Inr u, s2) \<Rightarrow> Some (Inr (), s2\<lparr>is_running := False\<rparr>))"

subsection \<open>A small learner to run the model on\<close>

text \<open>
  A world whose shuffle reverses the list, whose clock advances a minute at every
  reading and whose loss function, optimizer and checkpoint write succeed; and a
  learner with the given pools, one batch per update, two epochs.
\<close>

definition example_world :: "int \<Rightarrow> (nat, nat) world" where
  "example_world n =
     \<lparr>AHP = \<lparr>batch_size = n, sequence_length = 4\<rparr>,
      random_shuffle = (\<lambda>k xs. rev xs),
      time = (\<lambda>k. 60 * real k),
      loss_function = (\<lambda>m batch a b c. Inr (1, [(''actor'', 2)])),
      optimizer_step = (\<lambda>m batch. Inr (m + 1)),
      torch_save = (\<lambda>m. None)\<rparr>"

definition example_learner :: "nat list \<Rightarrow> nat list \<Rightarrow> nat list \<Rightarrow> (nat, nat) learner_process" where
  "example_learner ordinary final win =
     \<lparr>trajectories = ordinary, final_trajectories = final, win_trajectories = win,
      max_time_for_training = 180, is_running = False, is_rl_training = True,
      use_opponent_state = True, no_replay_learn = False, num_epochs = 2,
      count_of_batches = 1, buffer_size = 1, use_random_sample = False,
      only_update_baseline = False, agent_steps = 0, agent_model = 0,
      model_training = False, writer = [], saved = None, shuffle_calls = 0,
      time_calls = 0\<rparr>"

text \<open>The same world with a loss function that raises.\<close>

definition failing_world :: "(nat, nat) world" where
  "failing_world =
     (example_world 2)\<lparr>loss_function := (\<lambda>m batch a b c. Inl (Exception ''nan''))\<rparr>"

text \<open>
  The example learner with the pool \<open>[5, 6, 7]\<close> as the loop of \<^verbatim>\<open>run\<close> finds it, and
  as the update step leaves it when the loss function raises on the first mini-batch.
\<close>

definition loop_entry :: "(nat, nat) learner_process" where
  "loop_entry = (example_learner [5, 6, 7] [] [])\<lparr>time_calls := 1, is_running := True\<rparr>"

definition loop_failed :: "(nat, nat) learner_process" where
  "loop_failed =
     (example_learner [7] [] [])\<lparr>time_calls := 2, is_running := True, model_training := True\<rparr>"

section \<open>Properties\<close>

subsection \<open>Slices\<close>

lemma py_prefix_suffix: "py_prefix i xs @ py_suffix i xs = xs"
  by (simp add: py_prefix_def py_suffix_def)

lemma py_prefix_nonneg: "0 \<le> i \<Longrightarrow> py_prefix i xs = take (nat i) xs"
  by (simp add: py_prefix_def slice_index_def min_def)

lemma py_suffix_nonneg: "0 \<le> i \<Longrightarrow> py_suffix i xs = drop (nat i) xs"
  by (simp add: py_suffix_def slice_index_def min_def)

lemma mset_py_prefix_suffix: "mset (py_prefix i xs) + mset (py_suffix i xs) = mset xs"
  by (metis mset_append py_prefix_suffix)

lemma in_set_py_prefix: "x \<in> set (py_prefix i xs) \<Longrightarrow> x \<in> set xs"
  by (auto simp add: py_prefix_def dest: in_set_takeD)

lemma py_prefix_Nil: "py_prefix i [] = []"
  by (simp add: py_prefix_def)

subsection \<open>The blocks of mixed sampling\<close>

lemma permuting_length: "permuting w \<Longrightarrow> length (random_shuffle w k xs) = length xs"
  by (metis permuting_def size_mset)

lemma permuting_mset: "permuting w \<Longrightarrow> mset (random_shuffle w k xs) = mset xs"
  by (simp add: permuting_def)

lemma sample_win_nonneg: "0 \<le> sample_size hp s \<Longrightarrow>
    sample_win hp s = (if 10 \<le> sample_size hp s then 1 else 0)"
  by (auto simp add: sample_win_def py_int_times_def sgn_if min_def)

lemma sample_final_nonneg: "0 \<le> sample_size hp s \<Longrightarrow>
    sample_final hp s = (if 5 \<le> sample_size hp s then 1 else 0)"
  by (auto simp add: sample_final_def py_int_times_def sgn_if min_def)

lemma take_win_frame:
  "trajectories (snd (take_win w s)) = trajectories s"
  "final_trajectories (snd (take_win w s)) = final_trajectories s"
  "count_of_batches (snd (take_win w s)) = count_of_batches s"
  "use_random_sample (snd (take_win w s)) = use_random_sample s"
  by (simp_all add: take_win_def Let_def)

lemma take_final_frame:
  "trajectories (snd (take_final w s)) = trajectories s"
  "win_trajectories (snd (take_final w s)) = win_trajectories s"
  "count_of_batches (snd (take_final w s)) = count_of_batches s"
  "use_random_sample (snd (take_final w s)) = use_random_sample s"
  by (simp_all add: take_final_def Let_def)

lemma sample_size_take_win: "sample_size hp (snd (take_win w s)) = sample_size hp s"
  by (simp add: sample_size_def take_win_frame)

lemma length_take_win:
  assumes "0 \<le> sample_size (AHP w) s"
  shows "int (length (fst (take_win w s))) \<le> (if 10 \<le> sample_size (AHP w) s then 1 else 0)"
  using assms by (simp add: take_win_def Let_def sample_win_nonneg py_prefix_nonneg)

lemma length_take_final:
  assumes "0 \<le> sample_size (AHP w) s"
  shows "int (length (fst (take_final w s))) \<le> (if 5 \<le> sample_size (AHP w) s then 1 else 0)"
  using assms by (simp add: take_final_def Let_def sample_final_nonneg py_prefix_nonneg)

lemma reduce_sample_size_eq:
  "reduce_sample_size w s =
     sample_size (AHP w) s - int (length (fst (take_win w s)))
       - int (length (fst (take_final w (snd (take_win w s)))))"
  by (simp add: reduce_sample_size_def split_def Let_def)

lemma reduce_sample_size_nonneg:
  assumes "0 \<le> sample_size (AHP w) s"
  shows "0 \<le> reduce_sample_size w s"
proof -
  have "0 \<le> sample_size (AHP w) (snd (take_win w s))"
    using assms by (simp add: sample_size_take_win)
  from length_take_win [OF assms] length_take_final [OF this] assms
  show ?thesis
    by (simp add: reduce_sample_size_eq sample_size_take_win split: if_splits)
qed

lemma length_shuffle_ordinary:
  "permuting w \<Longrightarrow> length (trajectories (shuffle_ordinary w s)) = length (trajectories s)"
  by (simp add: shuffle_ordinary_def permuting_length)

lemma length_mixed_pool:
  "permuting w \<Longrightarrow>
   length (trajectories (shuffle_ordinary w (snd (take_final w (snd (take_win w s))))))
     = length (trajectories s)"
  by (simp add: length_shuffle_ordinary take_final_frame take_win_frame)

lemma take_win_pool:
  assumes "permuting w"
  shows "(128 < length (win_trajectories s) \<longrightarrow>
            random_shuffle w (shuffle_calls s) (win_trajectories s)
              = fst (take_win w s) @ win_trajectories (snd (take_win w s)))
       \<and> (length (win_trajectories s) \<le> 128 \<longrightarrow>
            mset (win_trajectories (snd (take_win w s))) = mset (win_trajectories s)
            \<and> set (fst (take_win w s)) \<subseteq> set (win_trajectories (snd (take_win w s))))"
  using assms
  by (auto simp add: take_win_def Let_def permuting_length permuting_mset py_prefix_suffix
      dest: in_set_py_prefix)

lemma take_final_pool:
  assumes "permuting w"
  shows "(64 < length (final_trajectories s) \<longrightarrow>
            random_shuffle w (shuffle_calls s) (final_trajectories s)
              = fst (take_final w s) @ final_trajectories (snd (take_final w s)))
       \<and> (length (final_trajectories s) \<le> 64 \<longrightarrow>
            mset (final_trajectories (snd (take_final w s))) = mset (final_trajectories s)
            \<and> set (fst (take_final w s)) \<subseteq> set (final_trajectories (snd (take_final w s))))"
  using assms
  by (auto simp add: take_final_def Let_def permuting_length permuting_mset py_prefix_suffix
      dest: in_set_py_prefix)

lemma shuffle_ordinary_frame:
  "win_trajectories (shuffle_ordinary w s) = win_trajectories s"
  "final_trajectories (shuffle_ordinary w s) = final_trajectories s"
  by (simp_all add: shuffle_ordinary_def)

lemma get_mixed_trajectories_frame:
  "win_trajectories (snd (get_mixed_trajectories w s)) = win_trajectories (snd (take_win w s))"
  "final_trajectories (snd (get_mixed_trajectories w s))
     = final_trajectories (snd (take_final w (snd (take_win w s))))"
  by (simp_all add: get_mixed_trajectories_def split_def Let_def shuffle_ordinary_frame
      take_final_frame)

lemma permuting_example_world: "permuting (example_world n)"
  by (simp add: permuting_def example_world_def)

lemma mset_shuffle_ordinary:
  "permuting w \<Longrightarrow> mset (trajectories (shuffle_ordinary w s)) = mset (trajectories s)"
  by (simp add: shuffle_ordinary_def permuting_mset)

lemma get_mixed_trajectories_ordinary:
  assumes "permuting w" and "get_mixed_trajectories w s = (Inr batch, s')"
  shows "\<exists>ordinary. batch = fst (take_win w s) @ fst (take_final w (snd (take_win w s))) @ ordinary
           \<and> mset (trajectories s) = mset ordinary + mset (trajectories s')"
proof -
  let ?s3 = "shuffle_ordinary w (snd (take_final w (snd (take_win w s))))"
  let ?r = "reduce_sample_size w s"
  have m: "mset (trajectories ?s3) = mset (trajectories s)"
    using assms(1) by (simp add: mset_shuffle_ordinary take_final_frame take_win_frame)
  have b: "batch = fst (take_win w s) @ fst (take_final w (snd (take_win w s)))
             @ py_prefix ?r (trajectories ?s3)"
    using assms(2)
    by (auto simp add: get_mixed_trajectories_def split_def Let_def split: if_splits)
  have p: "trajectories s' = py_suffix ?r (trajectories ?s3)
           \<or> (trajectories ?s3 = [] \<and> trajectories s' = [])"
    using assms(2)
    by (auto simp add: get_mixed_trajectories_def split_def Let_def split: if_splits)
  have "mset (trajectories ?s3) = mset (py_prefix ?r (trajectories ?s3)) + mset (trajectories s')"
    using p by (auto simp add: mset_py_prefix_suffix py_prefix_Nil)
  with m b show ?thesis by metis
qed

lemma get_normal_trajectories_split:
  assumes "get_normal_trajectories hp s = (Inr batch, s')"
  shows "trajectories s = batch @ trajectories s'"
  using assms
  by (auto simp add: get_normal_trajectories_def Let_def py_prefix_suffix py_prefix_Nil
      split: if_splits)

text \<open>Two runs of mixed sampling on the example learner, one after the other.\<close>

lemmas mixed_sampling_defs =
  get_mixed_trajectories_def reduce_sample_size_def take_win_def take_final_def
  shuffle_ordinary_def Let_def sample_win_def sample_final_def sample_size_def
  py_int_times_def py_prefix_def py_suffix_def slice_index_def example_world_def
  example_learner_def

lemma example_mixed_first:
  "get_mixed_trajectories (example_world 10) (example_learner [10, 11, 12, 13, 14, 15, 16, 17, 18, 19, 20, 21, 22, 23, 24, 25, 26, 27] [] [99])
     = (Inr [99, 10, 11, 12, 13, 14, 15, 16, 17, 18],
        (example_learner [19, 20, 21, 22, 23, 24, 25, 26, 27] [] [99])\<lparr>shuffle_calls := 1\<rparr>)"
  by (simp add: mixed_sampling_defs)

lemma example_mixed_second:
  "get_mixed_trajectories (example_world 10)
     ((example_learner [19, 20, 21, 22, 23, 24, 25, 26, 27] [] [99])\<lparr>shuffle_calls := 1\<rparr>)
     = (Inr [99, 19, 20, 21, 22, 23, 24, 25, 26, 27],
        (example_learner [] [] [99])\<lparr>shuffle_calls := 2\<rparr>)"
  by (simp add: mixed_sampling_defs)

lemma sample_quota_take_win:
  "sample_win hp (snd (take_win w s)) = sample_win hp s"
  "sample_final hp (snd (take_win w s)) = sample_final hp s"
  by (simp_all add: sample_win_def sample_final_def sample_size_take_win)

lemma take_win_quota:
  "fst (take_win w s)
     = (if win_trajectories s = [] then []
        else py_prefix (sample_win (AHP w) s)
               (random_shuffle w (shuffle_calls s) (win_trajectories s)))"
  by (simp add: take_win_def Let_def)

lemma take_final_quota:
  "fst (take_final w s)
     = (if final_trajectories s = [] then []
        else py_prefix (sample_final (AHP w) s)
               (random_shuffle w (shuffle_calls s) (final_trajectories s)))"
  by (simp add: take_final_def Let_def)

lemma take_win_rest:
  assumes "permuting w"
  shows "win_trajectories (snd (take_win w s))
     = (if win_trajectories s = [] then []
        else if 128 < length (win_trajectories s)
        then py_suffix (sample_win (AHP w) s)
               (random_shuffle w (shuffle_calls s) (win_trajectories s))
        else random_shuffle w (shuffle_calls s) (win_trajectories s))"
  using assms by (auto simp add: take_win_def Let_def permuting_length)

lemma take_final_rest:
  assumes "permuting w"
  shows "final_trajectories (snd (take_final w s))
     = (if final_trajectories s = [] then []
        else if 64 < length (final_trajectories s)
        then py_suffix (sample_final (AHP w) s)
               (random_shuffle w (shuffle_calls s) (final_trajectories s))
        else random_shuffle w (shuffle_calls s) (final_trajectories s))"
  using assms by (auto simp add: take_final_def Let_def permuting_length)

lemma get_mixed_trajectories_batch:
  assumes "fst (get_mixed_trajectories w s) = Inr batch"
  shows "\<exists>ordinary. batch
           = fst (take_win w s) @ fst (take_final w (snd (take_win w s))) @ ordinary"
  using assms
  by (auto simp add: get_mixed_trajectories_def split_def Let_def split: if_splits)

text \<open>Mixed sampling on pools above and below the two thresholds.\<close>

lemma example_mixed_large:
  "get_mixed_trajectories (example_world 10) 
         (example_learner [10, 11, 12, 13, 14, 15, 16, 17, 18, 19, 20, 21] [200..<270] [300..<430])
     = (Inr [429, 269, 10, 11, 12, 13, 14, 15, 16, 17],
        (example_learner [18, 19, 20, 21] (rev [200..<269]) (rev [300..<429]))
          \<lparr>shuffle_calls := 2\<rparr>)"
  by (simp add: mixed_sampling_defs)

lemma example_mixed_small:
  "get_mixed_trajectories (example_world 10) 
         (example_learner [10, 11, 12, 13, 14, 15, 16, 17, 18, 19, 20, 21] [40, 41] [50])
     = (Inr [50, 41, 10, 11, 12, 13, 14, 15, 16, 17],
        (example_learner [18, 19, 20, 21] [41, 40] [50])\<lparr>shuffle_calls := 2\<rparr>)"
  by (simp add: mixed_sampling_defs)

subsection \<open>The update step\<close>

lemma train_batch_steps:
  assumes "train_batch w sampled s batch_id = (Inr u, s')"
  shows "agent_steps s' = agent_steps s + batch_size (AHP w) * sequence_length (AHP w)"
  using assms
  by (auto simp add: train_batch_def Let_def split: sum.splits prod.splits)

lemma train_batch_frame:
  "count_of_batches (snd (train_batch w sampled s batch_id)) = count_of_batches s"
  "time_calls (snd (train_batch w sampled s batch_id)) = time_calls s"
  "max_time_for_training (snd (train_batch w sampled s batch_id)) = max_time_for_training s"
  by (auto simp add: train_batch_def Let_def split: sum.splits prod.splits)

lemma for_batches_frame:
  "count_of_batches (snd (for_batches w sampled ids s)) = count_of_batches s
   \<and> time_calls (snd (for_batches w sampled ids s)) = time_calls s
   \<and> max_time_for_training (snd (for_batches w sampled ids s)) = max_time_for_training s"
proof (induction ids arbitrary: s)
  case Nil
  show ?case by simp
next
  case (Cons batch_id rest)
  obtain r s1 where t: "train_batch w sampled s batch_id = (r, s1)"
    by (cases "train_batch w sampled s batch_id")
  have f: "count_of_batches s1 = count_of_batches s" "time_calls s1 = time_calls s"
    "max_time_for_training s1 = max_time_for_training s"
    using train_batch_frame [of w sampled s batch_id] by (simp_all add: t)
  show ?case
    using Cons.IH [of s1] f by (cases r) (simp_all add: t)
qed

lemma for_batches_steps:
  assumes "for_batches w sampled ids s = (Inr u, s')"
  shows "agent_steps s' = agent_steps s
           + int (length ids) * (batch_size (AHP w) * sequence_length (AHP w))"
  using assms
proof (induction ids arbitrary: s)
  case Nil
  then show ?case by simp
next
  case (Cons batch_id rest)
  obtain r s1 where t: "train_batch w sampled s batch_id = (r, s1)"
    by (cases "train_batch w sampled s batch_id")
  show ?case
  proof (cases r)
    case (Inl e)
    with Cons.prems t show ?thesis by simp
  next
    case (Inr v)
    with Cons.prems t have "for_batches w sampled rest s1 = (Inr u, s')" by simp
    from Cons.IH [OF this] train_batch_steps [of w sampled s batch_id v s1] t Inr
    show ?thesis by (simp add: algebra_simps)
  qed
qed

lemma length_py_range: "0 \<le> n \<Longrightarrow> int (length (py_range n)) = n"
  by (simp add: py_range_def)

lemma for_epochs_frame:
  "count_of_batches (snd (for_epochs w sampled ids s)) = count_of_batches s
   \<and> time_calls (snd (for_epochs w sampled ids s)) = time_calls s
   \<and> max_time_for_training (snd (for_epochs w sampled ids s)) = max_time_for_training s"
proof (induction ids arbitrary: s)
  case Nil
  show ?case by simp
next
  case (Cons ep_id rest)
  obtain r s1 where t: "for_batches w sampled (py_range (count_of_batches s)) s = (r, s1)"
    by (cases "for_batches w sampled (py_range (count_of_batches s)) s")
  have f: "count_of_batches s1 = count_of_batches s" "time_calls s1 = time_calls s"
    "max_time_for_training s1 = max_time_for_training s"
    using for_batches_frame [of w sampled "py_range (count_of_batches s)" s] by (simp_all add: t)
  show ?case
    using Cons.IH [of s1] f by (cases r) (simp_all add: t)
qed

lemma for_epochs_steps:
  assumes "for_epochs w sampled ids s = (Inr u, s')" and "0 \<le> count_of_batches s"
  shows "agent_steps s' = agent_steps s
           + int (length ids)
             * (count_of_batches s * (batch_size (AHP w) * sequence_length (AHP w)))"
  using assms
proof (induction ids arbitrary: s)
  case Nil
  then show ?case by simp
next
  case (Cons ep_id rest)
  obtain r s1 where t: "for_batches w sampled (py_range (count_of_batches s)) s = (r, s1)"
    by (cases "for_batches w sampled (py_range (count_of_batches s)) s")
  have c: "count_of_batches s1 = count_of_batches s"
    using for_batches_frame [of w sampled "py_range (count_of_batches s)" s] by (simp add: t)
  show ?case
  proof (cases r)
    case (Inl e)
    with Cons.prems t show ?thesis by simp
  next
    case (Inr v)
    with Cons.prems t have "for_epochs w sampled rest s1 = (Inr u, s')" by simp
    from Cons.IH [OF this] Cons.prems(2) c
    have "agent_steps s' = agent_steps s1
           + int (length rest)
             * (count_of_batches s * (batch_size (AHP w) * sequence_length (AHP w)))"
      by simp
    moreover have "agent_steps s1 = agent_steps s
           + count_of_batches s * (batch_size (AHP w) * sequence_length (AHP w))"
      using for_batches_steps [of w sampled "py_range (count_of_batches s)" s v s1] t Inr
        length_py_range [OF Cons.prems(2)]
      by simp
    ultimately show ?thesis by (simp add: algebra_simps)
  qed
qed

lemma get_normal_trajectories_frame:
  "agent_steps (snd (get_normal_trajectories hp s)) = agent_steps s"
  "count_of_batches (snd (get_normal_trajectories hp s)) = count_of_batches s"
  "num_epochs (snd (get_normal_trajectories hp s)) = num_epochs s"
  "time_calls (snd (get_normal_trajectories hp s)) = time_calls s"
  "max_time_for_training (snd (get_normal_trajectories hp s)) = max_time_for_training s"
  by (simp_all add: get_normal_trajectories_def Let_def)

lemma steps_of_update_parameters:
  assumes "is_rl_training s" and "0 \<le> num_epochs s" and "0 \<le> count_of_batches s"
    and "update_parameters w s = (Inr u, s')"
  shows "agent_steps s' = agent_steps s
           + num_epochs s * count_of_batches s * batch_size (AHP w) * sequence_length (AHP w)"
proof -
  obtain r s1 where g: "get_normal_trajectories (AHP w) s = (r, s1)"
    by (cases "get_normal_trajectories (AHP w) s")
  have f: "agent_steps s1 = agent_steps s" "count_of_batches s1 = count_of_batches s"
    "num_epochs s1 = num_epochs s"
    using get_normal_trajectories_frame [of "AHP w" s] by (simp_all add: g)
  from assms(1,4) g obtain sampled where r: "r = Inr sampled"
    by (cases r) (simp_all add: update_parameters_def)
  obtain r2 s2 where e: "for_epochs w sampled (py_range (num_epochs s1))
      (s1\<lparr>model_training := True\<rparr>) = (r2, s2)"
    by (cases "for_epochs w sampled (py_range (num_epochs s1)) (s1\<lparr>model_training := True\<rparr>)")
  from assms(1,4) g r e obtain v where r2: "r2 = Inr v"
    by (cases r2) (simp_all add: update_parameters_def)
  from assms(1,4) g r e r2 have s': "agent_steps s' = agent_steps s2"
    by (auto simp add: update_parameters_def split: option.splits)
  have "agent_steps s2 = agent_steps (s1\<lparr>model_training := True\<rparr>)
      + int (length (py_range (num_epochs s1)))
        * (count_of_batches (s1\<lparr>model_training := True\<rparr>)
           * (batch_size (AHP w) * sequence_length (AHP w)))"
    using e r2 assms(3) f by (intro for_epochs_steps [of w sampled _ _ v]) simp_all
  then show ?thesis
    using s' f length_py_range [OF assms(2)] by (simp add: algebra_simps)
qed

subsection \<open>The background loop\<close>

lemma update_parameters_frame:
  "time_calls (snd (update_parameters w s)) = time_calls s
   \<and> max_time_for_training (snd (update_parameters w s)) = max_time_for_training s"
proof (cases "is_rl_training s")
  case False
  then show ?thesis by (simp add: update_parameters_def)
next
  case True
  obtain r s1 where g: "get_normal_trajectories (AHP w) s = (r, s1)"
    by (cases "get_normal_trajectories (AHP w) s")
  have f1: "time_calls s1 = time_calls s" "max_time_for_training s1 = max_time_for_training s"
    using get_normal_trajectories_frame [of "AHP w" s] by (simp_all add: g)
  show ?thesis
  proof (cases r)
    case (Inl e)
    with True g f1 show ?thesis by (simp add: update_parameters_def)
  next
    case (Inr sampled)
    obtain r2 s2 where e: "for_epochs w sampled (py_range (num_epochs s1))
        (s1\<lparr>model_training := True\<rparr>) = (r2, s2)"
      by (cases "for_epochs w sampled (py_range (num_epochs s1)) (s1\<lparr>model_training := True\<rparr>)")
    have f2: "time_calls s2 = time_calls s" "max_time_for_training s2 = max_time_for_training s"
      using for_epochs_frame [of w sampled "py_range (num_epochs s1)" "s1\<lparr>model_training := True\<rparr>"]
        f1 by (simp_all add: e)
    show ?thesis
      using True g Inr e f2
      by (cases r2) (simp_all add: update_parameters_def split: option.splits)
  qed
qed

lemma iteration_frame:
  "time_calls (snd (iteration w s)) = time_calls s
   \<and> max_time_for_training (snd (iteration w s)) = max_time_for_training s"
  using update_parameters_frame [of w s] by (simp add: iteration_def)

lemma while_loop_expires:
  assumes "max_time_for_training s \<le> time w (time_calls s + k) - start_time"
  shows "\<exists>r s'. while_loop (Suc k) w start_time s = Some (r, s')"
  using assms
proof (induction k arbitrary: s)
  case 0
  then show ?case by (simp add: Let_def)
next
  case (Suc k)
  let ?s1 = "s\<lparr>time_calls := Suc (time_calls s)\<rparr>"
  obtain r s2 where i: "iteration w ?s1 = (r, s2)"
    by (cases "iteration w ?s1")
  have f: "time_calls s2 = Suc (time_calls s)" "max_time_for_training s2 = max_time_for_training s"
    using iteration_frame [of w ?s1] by (simp_all add: i)
  have "max_time_for_training s2 \<le> time w (time_calls s2 + k) - start_time"
    using Suc.prems f by simp
  from Suc.IH [OF this] obtain r' s' where "while_loop (Suc k) w start_time s2 = Some (r', s')"
    by blast
  then show ?case
    using i by (cases r) (simp_all add: Let_def del: while_loop.simps(2) add: while_loop.simps(2) [of "Suc k"])
qed

lemma run_returns:
  assumes "max_time_for_training s \<le> time w (time_calls s + 1 + k) - time w (time_calls s)"
  shows "\<exists>r s'. run (Suc k) w s = Some (r, s')"
proof -
  let ?s1 = "s\<lparr>time_calls := time_calls s + 1, is_running := True\<rparr>"
  have "max_time_for_training ?s1 \<le> time w (time_calls ?s1 + k) - time w (time_calls s)"
    using assms by simp
  from while_loop_expires [OF this] obtain r s' where
    "while_loop (Suc k) w (time w (time_calls s)) ?s1 = Some (r, s')" by blast
  then show ?thesis
    by (cases r) (simp_all add: run_def Let_def del: while_loop.simps)
qed

lemma run_clears_flag:
  assumes "run fuel w s = Some (r, s')"
  shows "\<not> is_running s'"
  using assms
  by (auto simp add: run_def Let_def split: option.splits prod.splits sum.splits)

lemma while_loop_break:
  assumes "time w (time_calls t) - start_time < max_time_for_training t"
    and "iteration w (t\<lparr>time_calls := time_calls t + 1\<rparr>) = (Inl e, t')"
  shows "while_loop (Suc fuel) w start_time t
           = Some (if is_Exception e then Inr () else Inl e, t')"
  using assms by (simp add: Let_def)

text \<open>The update step and the loop on the example learner.\<close>

lemmas update_defs =
  update_parameters_def get_normal_trajectories_def train_batch_def iteration_def
  sample_size_def py_range_def py_slice_def py_prefix_def py_suffix_def slice_index_def
  Let_def example_world_def example_learner_def

lemma example_update_parameters:
  "update_parameters (example_world 2) (example_learner [5, 6, 7] [] [])
     = (Inr (),
        (example_learner [7] [] [])
          \<lparr>agent_steps := 16, agent_model := 2,
           writer := [(''learner/actor'', 2, 0), (''learner/loss'', 1, 0),
                      (''learner/actor'', 2, 8), (''learner/loss'', 1, 8)],
           saved := Some 2\<rparr>)"
  by (simp add: update_defs upt_rec)

lemma example_failing_run:
  "run 1 failing_world (example_learner [5, 6, 7] [] [])
     = Some (Inr (), loop_failed\<lparr>is_running := False\<rparr>)"
  by (simp add: run_def failing_world_def loop_failed_def update_defs upt_rec)

lemma example_failing_iteration:
  "iteration failing_world (loop_entry\<lparr>time_calls := time_calls loop_entry + 1\<rparr>)
     = (Inl (Exception ''nan''), loop_failed)"
  by (simp add: failing_world_def loop_entry_def loop_failed_def update_defs upt_rec)

lemma example_failing_update:
  "update_parameters failing_world (loop_entry\<lparr>time_calls := 2\<rparr>)
     = (Inl (Exception ''nan''), loop_failed)"
  by (simp add: failing_world_def loop_entry_def loop_failed_def update_defs upt_rec)

section \<open>The claims\<close>

subsection \<open>Uniform sampling\<close>

text \<open>
  Claim C3. When the ordinary pool holds at least \<open>sample_size = count_of_batches *
  batch_size\<close> trajectories (a count, so not negative), \<^verbatim>\<open>get_normal_trajectories\<close>
  returns exactly the first \<open>sample_size\<close> of them, and the pool afterwards is the old
  pool from index \<open>sample_size\<close> on, in its original order.
\<close>

theorem get_normal_trajectories_fifo:
  assumes "0 \<le> sample_size hp s"
    and "sample_size hp s \<le> int (length (trajectories s))"
  shows "get_normal_trajectories hp s =
           (Inr (take (nat (sample_size hp s)) (trajectories s)),
            s\<lparr>trajectories := drop (nat (sample_size hp s)) (trajectories s)\<rparr>)"
  using assms by (auto simp add: get_normal_trajectories_def py_prefix_nonneg py_suffix_nonneg)

theorem get_normal_trajectories_fifo_witness:
  "0 \<le> sample_size (AHP (example_world 2)) (example_learner [5, 6, 7] [] [])
   \<and> sample_size (AHP (example_world 2)) (example_learner [5, 6, 7] [] [])
       \<le> int (length (trajectories (example_learner [5, 6, 7] [] [])))
   \<and> get_normal_trajectories (AHP (example_world 2)) (example_learner [5, 6, 7] [] [])
       = (Inr [5, 6], example_learner [7] [] [])"
  using get_normal_trajectories_fifo [of "AHP (example_world 2)" "example_learner [5, 6, 7] [] []"]
  by (simp add: sample_size_def example_world_def example_learner_def)

text \<open>
  Claim C10. When the ordinary pool holds fewer than \<open>sample_size\<close> trajectories,
  \<^verbatim>\<open>get_normal_trajectories\<close> raises \<^verbatim>\<open>AssertionError\<close>, and the learner is left exactly
  as it was: the assertion comes before the pool is assigned.
\<close>

theorem get_normal_trajectories_short:
  assumes "int (length (trajectories s)) < sample_size hp s"
  shows "get_normal_trajectories hp s = (Inl AssertionError, s)"
  using assms by (auto simp add: get_normal_trajectories_def py_prefix_nonneg)

theorem get_normal_trajectories_short_witness:
  "int (length (trajectories (example_learner [5, 6, 7] [] [])))
     < sample_size (AHP (example_world 4)) (example_learner [5, 6, 7] [] [])
   \<and> get_normal_trajectories (AHP (example_world 4)) (example_learner [5, 6, 7] [] [])
       = (Inl AssertionError, example_learner [5, 6, 7] [] [])"
  using get_normal_trajectories_short [of "example_learner [5, 6, 7] [] []" "AHP (example_world 4)"]
  by (simp add: sample_size_def example_world_def example_learner_def)

subsection \<open>Mixed sampling\<close>

text \<open>
  Claim C4. For pools of any sizes and a sample size that is not negative: when the
  ordinary pool covers the residual quota \<open>reduce_sample_size\<close> (the sample size less
  what was read from the win and final pools), \<^verbatim>\<open>get_mixed_trajectories\<close> returns a
  batch of exactly \<open>sample_size\<close> trajectories; when it does not, the method raises
  \<^verbatim>\<open>AssertionError\<close> and returns no batch.
\<close>

theorem get_mixed_trajectories_length:
  assumes "permuting w" and "0 \<le> sample_size (AHP w) s"
  shows "(reduce_sample_size w s \<le> int (length (trajectories s)) \<longrightarrow>
            (\<exists>batch s'. get_mixed_trajectories w s = (Inr batch, s')
               \<and> int (length batch) = sample_size (AHP w) s))
       \<and> (int (length (trajectories s)) < reduce_sample_size w s \<longrightarrow>
            (\<exists>s'. get_mixed_trajectories w s = (Inl AssertionError, s')))"
proof -
  let ?s3 = "shuffle_ordinary w (snd (take_final w (snd (take_win w s))))"
  have r: "0 \<le> reduce_sample_size w s"
    by (rule reduce_sample_size_nonneg [OF assms(2)])
  have len: "int (length (py_prefix (reduce_sample_size w s) (trajectories ?s3)))
      = min (reduce_sample_size w s) (int (length (trajectories s)))"
    using r by (simp add: py_prefix_nonneg length_mixed_pool [OF assms(1)])
  show ?thesis
    using len
    by (auto simp add: get_mixed_trajectories_def split_def Let_def reduce_sample_size_eq)
qed

theorem get_mixed_trajectories_length_witness:
  "permuting (example_world 10)
   \<and> 0 \<le> sample_size (AHP (example_world 10)) (example_learner [11, 12, 13, 14, 15, 16, 17, 18, 19] [20] [30, 31])
   \<and> reduce_sample_size (example_world 10) (example_learner [11, 12, 13, 14, 15, 16, 17, 18, 19] [20] [30, 31])
       \<le> int (length (trajectories (example_learner [11, 12, 13, 14, 15, 16, 17, 18, 19] [20] [30, 31])))
   \<and> (\<exists>batch s'. get_mixed_trajectories (example_world 10)
          (example_learner [11, 12, 13, 14, 15, 16, 17, 18, 19] [20] [30, 31]) = (Inr batch, s')
        \<and> int (length batch)
          = sample_size (AHP (example_world 10)) (example_learner [11, 12, 13, 14, 15, 16, 17, 18, 19] [20] [30, 31]))
   \<and> int (length (trajectories (example_learner [11, 12, 13] [20] [30, 31])))
       < reduce_sample_size (example_world 10) (example_learner [11, 12, 13] [20] [30, 31])
   \<and> (\<exists>s'. get_mixed_trajectories (example_world 10) (example_learner [11, 12, 13] [20] [30, 31])
          = (Inl AssertionError, s'))"
proof -
  have r1: "reduce_sample_size (example_world 10)
      (example_learner [11, 12, 13, 14, 15, 16, 17, 18, 19] [20] [30, 31]) = 8"
    by (simp add: reduce_sample_size_def take_win_def take_final_def Let_def sample_win_def
        sample_final_def sample_size_def py_int_times_def py_prefix_def slice_index_def
        example_world_def example_learner_def)
  have r2: "reduce_sample_size (example_world 10) (example_learner [11, 12, 13] [20] [30, 31]) = 8"
    by (simp add: reduce_sample_size_def take_win_def take_final_def Let_def sample_win_def
        sample_final_def sample_size_def py_int_times_def py_prefix_def slice_index_def
        example_world_def example_learner_def)
  have n: "sample_size (AHP (example_world 10)) (example_learner a b c) = 10" for a b c
    by (simp add: sample_size_def example_world_def example_learner_def)
  have t: "trajectories (example_learner a b c) = a" for a b c
    by (simp add: example_learner_def)
  show ?thesis
    using get_mixed_trajectories_length [OF permuting_example_world [of 10], of
        "example_learner [11, 12, 13, 14, 15, 16, 17, 18, 19] [20] [30, 31]"]
      get_mixed_trajectories_length [OF permuting_example_world [of 10], of
        "example_learner [11, 12, 13] [20] [30, 31]"]
    by (simp add: r1 r2 n t permuting_example_world)
qed

text \<open>
  Claim C6. After \<^verbatim>\<open>get_mixed_trajectories\<close>, however it ends: from a win pool of more
  than 128 elements the method has read the quota \<open>sample_win\<close> off the head of the
  shuffled pool (the slice \<^verbatim>\<open>[:sample_win]\<close>) and the pool is what follows (the slice
  \<^verbatim>\<open>[sample_win:]\<close>), so it has lost exactly the win trajectories read; for a sample
  size that is not negative the quota is 1 from a sample size of 10 on and 0 below.
  A win pool of 128 elements or fewer is the shuffled pool, of the same length and
  elements (an empty pool is not touched). The same holds of the final pool with
  \<open>sample_final\<close>, 64 and a sample size of 5. A batch that is returned begins with the
  win trajectories read, followed by the final trajectories read.
\<close>

theorem mixed_pools_trimmed:
  assumes "permuting w"
  shows "(128 < length (win_trajectories s) \<longrightarrow>
            fst (take_win w s)
              = py_prefix (sample_win (AHP w) s)
                  (random_shuffle w (shuffle_calls s) (win_trajectories s))
            \<and> win_trajectories (snd (get_mixed_trajectories w s))
              = py_suffix (sample_win (AHP w) s)
                  (random_shuffle w (shuffle_calls s) (win_trajectories s))
            \<and> random_shuffle w (shuffle_calls s) (win_trajectories s)
              = fst (take_win w s) @ win_trajectories (snd (get_mixed_trajectories w s))
            \<and> length (win_trajectories (snd (get_mixed_trajectories w s)))
              = length (win_trajectories s) - length (fst (take_win w s))
            \<and> (0 \<le> sample_size (AHP w) s \<longrightarrow>
                 fst (take_win w s)
                   = take (if 10 \<le> sample_size (AHP w) s then 1 else 0)
                       (random_shuffle w (shuffle_calls s) (win_trajectories s))
                 \<and> win_trajectories (snd (get_mixed_trajectories w s))
                   = drop (if 10 \<le> sample_size (AHP w) s then 1 else 0)
                       (random_shuffle w (shuffle_calls s) (win_trajectories s))))
       \<and> (length (win_trajectories s) \<le> 128 \<longrightarrow>
            win_trajectories (snd (get_mixed_trajectories w s))
              = (if win_trajectories s = [] then []
                 else random_shuffle w (shuffle_calls s) (win_trajectories s))
            \<and> length (win_trajectories (snd (get_mixed_trajectories w s)))
              = length (win_trajectories s)
            \<and> mset (win_trajectories (snd (get_mixed_trajectories w s)))
              = mset (win_trajectories s))
       \<and> (64 < length (final_trajectories s) \<longrightarrow>
            fst (take_final w (snd (take_win w s)))
              = py_prefix (sample_final (AHP w) s)
                  (random_shuffle w (shuffle_calls (snd (take_win w s))) (final_trajectories s))
            \<and> final_trajectories (snd (get_mixed_trajectories w s))
              = py_suffix (sample_final (AHP w) s)
                  (random_shuffle w (shuffle_calls (snd (take_win w s))) (final_trajectories s))
            \<and> random_shuffle w (shuffle_calls (snd (take_win w s))) (final_trajectories s)
              = fst (take_final w (snd (take_win w s)))
                @ final_trajectories (snd (get_mixed_trajectories w s))
            \<and> length (final_trajectories (snd (get_mixed_trajectories w s)))
              = length (final_trajectories s) - length (fst (take_final w (snd (take_win w s))))
            \<and> (0 \<le> sample_size (AHP w) s \<longrightarrow>
                 fst (take_final w (snd (take_win w s)))
                   = take (if 5 \<le> sample_size (AHP w) s then 1 else 0)
                       (random_shuffle w (shuffle_calls (snd (take_win w s)))
                          (final_trajectories s))
                 \<and> final_trajectories (snd (get_mixed_trajectories w s))
                   = drop (if 5 \<le> sample_size (AHP w) s then 1 else 0)
                       (random_shuffle w (shuffle_calls (snd (take_win w s)))
                          (final_trajectories s))))
       \<and> (length (final_trajectories s) \<le> 64 \<longrightarrow>
            final_trajectories (snd (get_mixed_trajectories w s))
              = (if final_trajectories s = [] then []
                 else random_shuffle w (shuffle_calls (snd (take_win w s))) (final_trajectories s))
            \<and> length (final_trajectories (snd (get_mixed_trajectories w s)))
              = length (final_trajectories s)
            \<and> mset (final_trajectories (snd (get_mixed_trajectories w s)))
              = mset (final_trajectories s))
       \<and> (fst (get_mixed_trajectories w s) = Inr batch \<longrightarrow>
            (\<exists>ordinary. batch
               = fst (take_win w s) @ fst (take_final w (snd (take_win w s))) @ ordinary))"
proof -
  let ?s1 = "snd (take_win w s)"
  let ?sw = "random_shuffle w (shuffle_calls s) (win_trajectories s)"
  let ?sf = "random_shuffle w (shuffle_calls ?s1) (final_trajectories s)"
  let ?qw = "sample_win (AHP w) s"
  let ?qf = "sample_final (AHP w) s"
  have lw: "length ?sw = length (win_trajectories s)" and mw: "mset ?sw = mset (win_trajectories s)"
    and lf: "length ?sf = length (final_trajectories s)"
    and mf: "mset ?sf = mset (final_trajectories s)"
    using assms by (simp_all add: permuting_length permuting_mset)
  have tw: "128 < length (win_trajectories s) \<Longrightarrow> fst (take_win w s) = py_prefix ?qw ?sw"
    by (auto simp add: take_win_quota)
  have rw: "128 < length (win_trajectories s) \<Longrightarrow> win_trajectories ?s1 = py_suffix ?qw ?sw"
    using take_win_rest [OF assms, of s] by auto
  have kw: "length (win_trajectories s) \<le> 128 \<Longrightarrow>
      win_trajectories ?s1 = (if win_trajectories s = [] then [] else ?sw)"
    using take_win_rest [OF assms, of s] by auto
  have tf: "64 < length (final_trajectories s) \<Longrightarrow> fst (take_final w ?s1) = py_prefix ?qf ?sf"
    by (auto simp add: take_final_quota take_win_frame sample_quota_take_win)
  have rf: "64 < length (final_trajectories s) \<Longrightarrow>
      final_trajectories (snd (take_final w ?s1)) = py_suffix ?qf ?sf"
    using take_final_rest [OF assms, of ?s1]
    by (auto simp add: take_win_frame sample_quota_take_win)
  have kf: "length (final_trajectories s) \<le> 64 \<Longrightarrow>
      final_trajectories (snd (take_final w ?s1))
        = (if final_trajectories s = [] then [] else ?sf)"
    using take_final_rest [OF assms, of ?s1]
    by (auto simp add: take_win_frame sample_quota_take_win)
  have lenw: "128 < length (win_trajectories s) \<Longrightarrow>
      length (py_suffix ?qw ?sw) = length (win_trajectories s) - length (py_prefix ?qw ?sw)"
    using lw by (metis add_diff_cancel_left' length_append py_prefix_suffix)
  have lenf: "64 < length (final_trajectories s) \<Longrightarrow>
      length (py_suffix ?qf ?sf) = length (final_trajectories s) - length (py_prefix ?qf ?sf)"
    using lf by (metis add_diff_cancel_left' length_append py_prefix_suffix)
  have qw: "0 \<le> sample_size (AHP w) s \<Longrightarrow>
      py_prefix ?qw ?sw = take (if 10 \<le> sample_size (AHP w) s then 1 else 0) ?sw
      \<and> py_suffix ?qw ?sw = drop (if 10 \<le> sample_size (AHP w) s then 1 else 0) ?sw"
    by (simp add: sample_win_nonneg py_prefix_nonneg py_suffix_nonneg)
  have qf: "0 \<le> sample_size (AHP w) s \<Longrightarrow>
      py_prefix ?qf ?sf = take (if 5 \<le> sample_size (AHP w) s then 1 else 0) ?sf
      \<and> py_suffix ?qf ?sf = drop (if 5 \<le> sample_size (AHP w) s then 1 else 0) ?sf"
    by (simp add: sample_final_nonneg py_prefix_nonneg py_suffix_nonneg)
  have win_part: "128 < length (win_trajectories s) \<longrightarrow>
      fst (take_win w s) = py_prefix ?qw ?sw
      \<and> win_trajectories (snd (get_mixed_trajectories w s)) = py_suffix ?qw ?sw
      \<and> ?sw = fst (take_win w s) @ win_trajectories (snd (get_mixed_trajectories w s))
      \<and> length (win_trajectories (snd (get_mixed_trajectories w s)))
        = length (win_trajectories s) - length (fst (take_win w s))
      \<and> (0 \<le> sample_size (AHP w) s \<longrightarrow>
           fst (take_win w s) = take (if 10 \<le> sample_size (AHP w) s then 1 else 0) ?sw
           \<and> win_trajectories (snd (get_mixed_trajectories w s))
             = drop (if 10 \<le> sample_size (AHP w) s then 1 else 0) ?sw)"
    using tw rw lenw qw by (simp add: get_mixed_trajectories_frame py_prefix_suffix)
  have win_keep: "length (win_trajectories s) \<le> 128 \<longrightarrow>
      win_trajectories (snd (get_mixed_trajectories w s))
        = (if win_trajectories s = [] then [] else ?sw)
      \<and> length (win_trajectories (snd (get_mixed_trajectories w s)))
        = length (win_trajectories s)
      \<and> mset (win_trajectories (snd (get_mixed_trajectories w s))) = mset (win_trajectories s)"
    using kw lw mw by (simp add: get_mixed_trajectories_frame)
  have final_part: "64 < length (final_trajectories s) \<longrightarrow>
      fst (take_final w ?s1) = py_prefix ?qf ?sf
      \<and> final_trajectories (snd (get_mixed_trajectories w s)) = py_suffix ?qf ?sf
      \<and> ?sf = fst (take_final w ?s1) @ final_trajectories (snd (get_mixed_trajectories w s))
      \<and> length (final_trajectories (snd (get_mixed_trajectories w s)))
        = length (final_trajectories s) - length (fst (take_final w ?s1))
      \<and> (0 \<le> sample_size (AHP w) s \<longrightarrow>
           fst (take_final w ?s1) = take (if 5 \<le> sample_size (AHP w) s then 1 else 0) ?sf
           \<and> final_trajectories (snd (get_mixed_trajectories w s))
             = drop (if 5 \<le> sample_size (AHP w) s then 1 else 0) ?sf)"
    using tf rf lenf qf by (simp add: get_mixed_trajectories_frame py_prefix_suffix)
  have final_keep: "length (final_trajectories s) \<le> 64 \<longrightarrow>
      final_trajectories (snd (get_mixed_trajectories w s))
        = (if final_trajectories s = [] then [] else ?sf)
      \<and> length (final_trajectories (snd (get_mixed_trajectories w s)))
        = length (final_trajectories s)
      \<and> mset (final_trajectories (snd (get_mixed_trajectories w s)))
        = mset (final_trajectories s)"
    using kf lf mf by (simp add: get_mixed_trajectories_frame)
  have batch_part: "fst (get_mixed_trajectories w s) = Inr batch \<longrightarrow>
      (\<exists>ordinary. batch = fst (take_win w s) @ fst (take_final w ?s1) @ ordinary)"
    using get_mixed_trajectories_batch by blast
  from win_part win_keep final_part final_keep batch_part show ?thesis
    by (intro conjI)
qed

theorem mixed_pools_trimmed_witness:
  "permuting (example_world 10)
   \<and> 128 < length (win_trajectories 
         (example_learner [10, 11, 12, 13, 14, 15, 16, 17, 18, 19, 20, 21] [200..<270] [300..<430]))
   \<and> 64 < length (final_trajectories 
         (example_learner [10, 11, 12, 13, 14, 15, 16, 17, 18, 19, 20, 21] [200..<270] [300..<430]))
   \<and> 0 \<le> sample_size (AHP (example_world 10)) 
         (example_learner [10, 11, 12, 13, 14, 15, 16, 17, 18, 19, 20, 21] [200..<270] [300..<430])
   \<and> fst (get_mixed_trajectories (example_world 10) 
         (example_learner [10, 11, 12, 13, 14, 15, 16, 17, 18, 19, 20, 21] [200..<270] [300..<430]))
       = Inr [429, 269, 10, 11, 12, 13, 14, 15, 16, 17]
   \<and> fst (take_win (example_world 10) 
         (example_learner [10, 11, 12, 13, 14, 15, 16, 17, 18, 19, 20, 21] [200..<270] [300..<430])) = [429]
   \<and> win_trajectories (snd (get_mixed_trajectories (example_world 10) 
         (example_learner [10, 11, 12, 13, 14, 15, 16, 17, 18, 19, 20, 21] [200..<270] [300..<430]))) = rev [300..<429]
   \<and> length (win_trajectories (snd (get_mixed_trajectories (example_world 10) 
         (example_learner [10, 11, 12, 13, 14, 15, 16, 17, 18, 19, 20, 21] [200..<270] [300..<430])))) = 129
   \<and> fst (take_final (example_world 10) (snd (take_win (example_world 10) 
         (example_learner [10, 11, 12, 13, 14, 15, 16, 17, 18, 19, 20, 21] [200..<270] [300..<430])))) = [269]
   \<and> final_trajectories (snd (get_mixed_trajectories (example_world 10) 
         (example_learner [10, 11, 12, 13, 14, 15, 16, 17, 18, 19, 20, 21] [200..<270] [300..<430]))) = rev [200..<269]
   \<and> length (final_trajectories (snd (get_mixed_trajectories (example_world 10) 
         (example_learner [10, 11, 12, 13, 14, 15, 16, 17, 18, 19, 20, 21] [200..<270] [300..<430])))) = 69
   \<and> length (win_trajectories 
         (example_learner [10, 11, 12, 13, 14, 15, 16, 17, 18, 19, 20, 21] [40, 41] [50])) \<le> 128
   \<and> length (final_trajectories 
         (example_learner [10, 11, 12, 13, 14, 15, 16, 17, 18, 19, 20, 21] [40, 41] [50])) \<le> 64
   \<and> fst (get_mixed_trajectories (example_world 10) 
         (example_learner [10, 11, 12, 13, 14, 15, 16, 17, 18, 19, 20, 21] [40, 41] [50]))
       = Inr [50, 41, 10, 11, 12, 13, 14, 15, 16, 17]
   \<and> win_trajectories (snd (get_mixed_trajectories (example_world 10) 
         (example_learner [10, 11, 12, 13, 14, 15, 16, 17, 18, 19, 20, 21] [40, 41] [50]))) = [50]
   \<and> final_trajectories (snd (get_mixed_trajectories (example_world 10) 
         (example_learner [10, 11, 12, 13, 14, 15, 16, 17, 18, 19, 20, 21] [40, 41] [50]))) = [41, 40]"
proof -
  have f: "trajectories (example_learner a b c) = a"
    "final_trajectories (example_learner a b c) = b"
    "win_trajectories (example_learner a b c) = c"
    "shuffle_calls (example_learner a b c) = 0" for a b c
    by (simp_all add: example_learner_def)
  have n: "sample_size (AHP (example_world 10)) (example_learner a b c) = 10" for a b c
    by (simp add: sample_size_def example_world_def example_learner_def)
  have r: "random_shuffle (example_world 10) k xs = rev xs" for k xs
    by (simp add: example_world_def)
  have c: "shuffle_calls (snd (take_win (example_world 10) (example_learner a b c)))
      = (if c = [] then 0 else 1)" for a b c
    by (simp add: take_win_def Let_def example_learner_def)
  have w: "rev [300..<430] = 429 # rev [300..<429]" "rev [200..<270] = 269 # rev [200..<269]"
    by simp_all
  show ?thesis
    using mixed_pools_trimmed [OF permuting_example_world [of 10], of
        "example_learner [10, 11, 12, 13, 14, 15, 16, 17, 18, 19, 20, 21] [200..<270] [300..<430]" "[429, 269, 10, 11, 12, 13, 14, 15, 16, 17]"]
      mixed_pools_trimmed [OF permuting_example_world [of 10], of
        "example_learner [10, 11, 12, 13, 14, 15, 16, 17, 18, 19, 20, 21] [40, 41] [50]" "[50, 41, 10, 11, 12, 13, 14, 15, 16, 17]"]
    by (simp add: f n r c w example_mixed_large example_mixed_small permuting_example_world
        del: upt_rec_numeral)
qed

subsection \<open>What a sample removes\<close>

text \<open>
  Claim C5 says that every trajectory a sampling method returns is removed from its
  pool by the same call, so that no pool element reaches two batches. Mixed sampling
  does not do that for a win pool of at most 128 elements: the only win trajectory of
  the example learner is returned by a first call, is still in the win pool
  afterwards, and is returned again by the second call.
\<close>

theorem mixed_sampling_rereads_counterexample:
  "fst (get_mixed_trajectories (example_world 10) (example_learner [10, 11, 12, 13, 14, 15, 16, 17, 18, 19, 20, 21, 22, 23, 24, 25, 26, 27] [] [99]))
     = Inr [99, 10, 11, 12, 13, 14, 15, 16, 17, 18]
   \<and> win_trajectories (snd (get_mixed_trajectories (example_world 10)
          (example_learner [10, 11, 12, 13, 14, 15, 16, 17, 18, 19, 20, 21, 22, 23, 24, 25, 26, 27] [] [99])))
     = [99]
   \<and> fst (get_mixed_trajectories (example_world 10)
        (snd (get_mixed_trajectories (example_world 10) (example_learner [10, 11, 12, 13, 14, 15, 16, 17, 18, 19, 20, 21, 22, 23, 24, 25, 26, 27] [] [99]))))
     = Inr [99, 19, 20, 21, 22, 23, 24, 25, 26, 27]"
  by (simp only: example_mixed_first example_mixed_second fst_conv snd_conv)
    (simp add: example_learner_def)

text \<open>
  Claim C5 as amended. Uniform sampling removes from the ordinary pool every
  trajectory it returns. Mixed sampling, when it returns a batch, returns what it read
  from the win pool, then from the final pool, then from the ordinary pool; the
  ordinary part is removed from the ordinary pool; the win part is removed from the
  win pool only when that pool holds more than 128 elements, and the final part from
  the final pool only when that pool holds more than 64; otherwise the pool keeps all
  its elements, those returned included.
\<close>

theorem sampled_trajectories_removed:
  "(get_normal_trajectories hp s = (Inr batch, s') \<longrightarrow> trajectories s = batch @ trajectories s')
   \<and> (permuting w \<and> get_mixed_trajectories w s = (Inr mixed, t) \<longrightarrow>
        (\<exists>ordinary.
            mixed = fst (take_win w s) @ fst (take_final w (snd (take_win w s))) @ ordinary
            \<and> mset (trajectories s) = mset ordinary + mset (trajectories t))
        \<and> (if 128 < length (win_trajectories s)
            then mset (win_trajectories s) = mset (fst (take_win w s)) + mset (win_trajectories t)
            else mset (win_trajectories t) = mset (win_trajectories s)
                 \<and> set (fst (take_win w s)) \<subseteq> set (win_trajectories t))
        \<and> (if 64 < length (final_trajectories s)
            then mset (final_trajectories s)
                   = mset (fst (take_final w (snd (take_win w s)))) + mset (final_trajectories t)
            else mset (final_trajectories t) = mset (final_trajectories s)
                 \<and> set (fst (take_final w (snd (take_win w s)))) \<subseteq> set (final_trajectories t)))"
proof (intro conjI impI)
  assume "get_normal_trajectories hp s = (Inr batch, s')"
  then show "trajectories s = batch @ trajectories s'"
    by (rule get_normal_trajectories_split)
next
  assume a: "permuting w \<and> get_mixed_trajectories w s = (Inr mixed, t)"
  then show "\<exists>ordinary.
      mixed = fst (take_win w s) @ fst (take_final w (snd (take_win w s))) @ ordinary
      \<and> mset (trajectories s) = mset ordinary + mset (trajectories t)"
    using get_mixed_trajectories_ordinary by blast
next
  assume a: "permuting w \<and> get_mixed_trajectories w s = (Inr mixed, t)"
  then have p: "permuting w" and t: "t = snd (get_mixed_trajectories w s)" by simp_all
  have "128 < length (win_trajectories s) \<Longrightarrow>
      mset (win_trajectories s)
        = mset (fst (take_win w s)) + mset (win_trajectories (snd (take_win w s)))"
    using take_win_pool [OF p, of s] permuting_mset [OF p, of "shuffle_calls s" "win_trajectories s"]
    by (metis mset_append)
  then show "if 128 < length (win_trajectories s)
      then mset (win_trajectories s) = mset (fst (take_win w s)) + mset (win_trajectories t)
      else mset (win_trajectories t) = mset (win_trajectories s)
           \<and> set (fst (take_win w s)) \<subseteq> set (win_trajectories t)"
    using take_win_pool [OF p, of s]
    by (simp add: t get_mixed_trajectories_frame permuting_mset [OF p])
next
  assume a: "permuting w \<and> get_mixed_trajectories w s = (Inr mixed, t)"
  then have p: "permuting w" and t: "t = snd (get_mixed_trajectories w s)" by simp_all
  let ?s1 = "snd (take_win w s)"
  have "64 < length (final_trajectories s) \<Longrightarrow>
      mset (final_trajectories s)
        = mset (fst (take_final w ?s1)) + mset (final_trajectories (snd (take_final w ?s1)))"
    using take_final_pool [OF p, of ?s1]
      permuting_mset [OF p, of "shuffle_calls ?s1" "final_trajectories s"]
    by (metis mset_append take_win_frame(2))
  then show "if 64 < length (final_trajectories s)
      then mset (final_trajectories s)
             = mset (fst (take_final w ?s1)) + mset (final_trajectories t)
      else mset (final_trajectories t) = mset (final_trajectories s)
           \<and> set (fst (take_final w ?s1)) \<subseteq> set (final_trajectories t)"
    using take_final_pool [OF p, of ?s1]
    by (simp add: t get_mixed_trajectories_frame permuting_mset [OF p] take_win_frame)
qed

theorem sampled_trajectories_removed_witness:
  "get_normal_trajectories (AHP (example_world 2)) (example_learner [10, 11, 12, 13, 14, 15, 16, 17, 18, 19, 20, 21, 22, 23, 24, 25, 26, 27] [] [99])
     = (Inr [10, 11],
        example_learner [12, 13, 14, 15, 16, 17, 18, 19, 20, 21, 22, 23, 24, 25, 26, 27] [] [99])
   \<and> trajectories (example_learner [10, 11, 12, 13, 14, 15, 16, 17, 18, 19, 20, 21, 22, 23, 24, 25, 26, 27] [] [99])
     = [10, 11] @ trajectories
         (example_learner [12, 13, 14, 15, 16, 17, 18, 19, 20, 21, 22, 23, 24, 25, 26, 27] [] [99])
   \<and> permuting (example_world 10)
   \<and> get_mixed_trajectories (example_world 10) (example_learner [10, 11, 12, 13, 14, 15, 16, 17, 18, 19, 20, 21, 22, 23, 24, 25, 26, 27] [] [99])
     = (Inr [99, 10, 11, 12, 13, 14, 15, 16, 17, 18],
        (example_learner [19, 20, 21, 22, 23, 24, 25, 26, 27] [] [99])\<lparr>shuffle_calls := 1\<rparr>)
   \<and> mset (trajectories (example_learner [10, 11, 12, 13, 14, 15, 16, 17, 18, 19, 20, 21, 22, 23, 24, 25, 26, 27] [] [99]))
     = mset [10, 11, 12, 13, 14, 15, 16, 17, 18]
       + mset (trajectories
           ((example_learner [19, 20, 21, 22, 23, 24, 25, 26, 27] [] [99])\<lparr>shuffle_calls := 1\<rparr>))
   \<and> \<not> 128 < length (win_trajectories (example_learner [10, 11, 12, 13, 14, 15, 16, 17, 18, 19, 20, 21, 22, 23, 24, 25, 26, 27] [] [99]))
   \<and> set (fst (take_win (example_world 10) (example_learner [10, 11, 12, 13, 14, 15, 16, 17, 18, 19, 20, 21, 22, 23, 24, 25, 26, 27] [] [99])))
       \<subseteq> set (win_trajectories
           ((example_learner [19, 20, 21, 22, 23, 24, 25, 26, 27] [] [99])\<lparr>shuffle_calls := 1\<rparr>))"
proof -
  have n: "get_normal_trajectories (AHP (example_world 2)) (example_learner [10, 11, 12, 13, 14, 15, 16, 17, 18, 19, 20, 21, 22, 23, 24, 25, 26, 27] [] [99])
     = (Inr [10, 11],
        example_learner [12, 13, 14, 15, 16, 17, 18, 19, 20, 21, 22, 23, 24, 25, 26, 27] [] [99])"
    by (simp add: get_normal_trajectories_def mixed_sampling_defs)
  have t: "trajectories (example_learner a b c) = a" "win_trajectories (example_learner a b c) = c"
    for a b c
    by (simp_all add: example_learner_def)
  show ?thesis
    using sampled_trajectories_removed [of "AHP (example_world 2)" "example_learner [10, 11, 12, 13, 14, 15, 16, 17, 18, 19, 20, 21, 22, 23, 24, 25, 26, 27] [] [99]"
        "[10, 11]"
        "example_learner [12, 13, 14, 15, 16, 17, 18, 19, 20, 21, 22, 23, 24, 25, 26, 27] [] [99]"
        "example_world 10" "[99, 10, 11, 12, 13, 14, 15, 16, 17, 18]"
        "(example_learner [19, 20, 21, 22, 23, 24, 25, 26, 27] [] [99])\<lparr>shuffle_calls := 1\<rparr>"]
    by (simp add: n t example_mixed_first permuting_example_world)
qed

subsection \<open>The quotas of mixed sampling\<close>

text \<open>
  Claim C1 states the win quota as \<open>max(1, floor(sample_size * 0.1))\<close> and the final
  quota as \<open>max(1, floor(sample_size * 0.2))\<close>. The source computes both with
  \<^verbatim>\<open>min\<close>: at a sample size of 20 the two quotas are 1 and 1, where the claim's
  formulas give 2 and 4.
\<close>

theorem quota_at_sample_size_20:
  "sample_size (AHP (example_world 20)) (example_learner [] [] []) = 20
   \<and> sample_win (AHP (example_world 20)) (example_learner [] [] []) = 1
   \<and> sample_final (AHP (example_world 20)) (example_learner [] [] []) = 1
   \<and> max 1 \<lfloor>20 * (1 / 10 :: real)\<rfloor> = 2
   \<and> max 1 \<lfloor>20 * (2 / 10 :: real)\<rfloor> = 4"
  by (simp add: sample_win_def sample_final_def sample_size_def py_int_times_def
      example_world_def example_learner_def)

text \<open>
  Claim C2, the scenario: a sample size of 10, a win pool of 5, a final pool of 3, an
  ordinary pool of 100. The claim has a win quota of 1, a final quota of 2 and 7
  trajectories taken from the ordinary pool. The source, which computes the quotas
  with \<^verbatim>\<open>min\<close>, has a win quota of 1, a final quota of 1, and takes 8 from the
  ordinary pool; the batch has 10 trajectories.
\<close>

theorem mixed_scenario_quotas:
  "sample_size (AHP (example_world 10)) (example_learner [200..<300] [20, 21, 22] [30, 31, 32, 33, 34]) = 10
   \<and> length (trajectories (example_learner [200..<300] [20, 21, 22] [30, 31, 32, 33, 34])) = 100
   \<and> sample_win (AHP (example_world 10)) (example_learner [200..<300] [20, 21, 22] [30, 31, 32, 33, 34]) = 1
   \<and> sample_final (AHP (example_world 10)) (example_learner [200..<300] [20, 21, 22] [30, 31, 32, 33, 34]) = 1
   \<and> reduce_sample_size (example_world 10) (example_learner [200..<300] [20, 21, 22] [30, 31, 32, 33, 34]) = 8
   \<and> fst (get_mixed_trajectories (example_world 10)
          (example_learner [200..<300] [20, 21, 22] [30, 31, 32, 33, 34]))
       = Inr [34, 22, 200, 201, 202, 203, 204, 205, 206, 207]"
  by (simp add: mixed_sampling_defs upt_rec)

subsection \<open>The step counter\<close>

text \<open>
  Claim C7. With training enabled and non-negative numbers of epochs and of batches:
  a mini-batch that is processed advances the step counter by exactly \<open>batch_size *
  sequence_length\<close>, and a call of \<^verbatim>\<open>update_parameters\<close> that completes advances it
  by exactly \<open>num_epochs * count_of_batches * batch_size * sequence_length\<close>.
\<close>

theorem update_parameters_steps:
  assumes "is_rl_training s" and "0 \<le> num_epochs s" and "0 \<le> count_of_batches s"
  shows "(train_batch w sampled s batch_id = (Inr (), s1) \<longrightarrow>
            agent_steps s1 = agent_steps s + batch_size (AHP w) * sequence_length (AHP w))
       \<and> (update_parameters w s = (Inr (), s') \<longrightarrow>
            agent_steps s' = agent_steps s
              + num_epochs s * count_of_batches s * batch_size (AHP w) * sequence_length (AHP w))"
  using assms train_batch_steps [of w sampled s batch_id "()" s1]
    steps_of_update_parameters [of s w "()" s']
  by blast

theorem update_parameters_steps_witness:
  "is_rl_training (example_learner [5, 6, 7] [] [])
   \<and> 0 \<le> num_epochs (example_learner [5, 6, 7] [] [])
   \<and> 0 \<le> count_of_batches (example_learner [5, 6, 7] [] [])
   \<and> fst (update_parameters (example_world 2) (example_learner [5, 6, 7] [] [])) = Inr ()
   \<and> agent_steps (snd (update_parameters (example_world 2) (example_learner [5, 6, 7] [] [])))
       = 0 + 2 * 1 * 2 * 4
   \<and> fst (train_batch (example_world 2) [5, 6] (example_learner [5, 6, 7] [] []) 0) = Inr ()
   \<and> agent_steps (snd (train_batch (example_world 2) [5, 6] (example_learner [5, 6, 7] [] []) 0))
       = 0 + 2 * 4"
proof -
  have u: "fst (update_parameters (example_world 2) (example_learner [5, 6, 7] [] [])) = Inr ()"
    by (simp add: example_update_parameters)
  have b: "fst (train_batch (example_world 2) [5, 6] (example_learner [5, 6, 7] [] []) 0) = Inr ()"
    by (simp add: update_defs)
  have c: "is_rl_training (example_learner [5, 6, 7] [] [])"
    "num_epochs (example_learner [5, 6, 7] [] []) = 2"
    "count_of_batches (example_learner [5, 6, 7] [] []) = 1"
    "agent_steps (example_learner [5, 6, 7] [] []) = 0"
    "batch_size (AHP (example_world 2)) = 2" "sequence_length (AHP (example_world 2)) = 4"
    by (simp_all add: example_learner_def example_world_def)
  show ?thesis
    using update_parameters_steps [of "example_learner [5, 6, 7] [] []" "example_world 2" "[5, 6]" 0
        "snd (train_batch (example_world 2) [5, 6] (example_learner [5, 6, 7] [] []) 0)"
        "snd (update_parameters (example_world 2) (example_learner [5, 6, 7] [] []))"] u b
    by (simp add: c prod_eq_iff)
qed

text \<open>
  Claim C8. With training disabled, \<^verbatim>\<open>update_parameters\<close> returns at once and leaves
  the whole state as it was: the three pools, the step counter and the checkpoint
  among the rest.
\<close>

theorem update_parameters_disabled:
  assumes "\<not> is_rl_training s"
  shows "update_parameters w s = (Inr (), s)"
  using assms by (simp add: update_parameters_def)

theorem update_parameters_disabled_witness:
  "\<not> is_rl_training ((example_learner [5, 6, 7] [] [])\<lparr>is_rl_training := False\<rparr>)
   \<and> update_parameters (example_world 2) ((example_learner [5, 6, 7] [] [])\<lparr>is_rl_training := False\<rparr>)
       = (Inr (), (example_learner [5, 6, 7] [] [])\<lparr>is_rl_training := False\<rparr>)"
  using update_parameters_disabled [of "(example_learner [5, 6, 7] [] [])\<lparr>is_rl_training := False\<rparr>"
      "example_world 2"]
  by simp

subsection \<open>The background loop\<close>

text \<open>
  Claim C9. Whenever \<^verbatim>\<open>run\<close> returns, by expiry of the time to live, by a break or by
  an exception, \<open>is_running\<close> is false; and it does return, with fuel for \<open>k + 1\<close> loop
  tests, when the clock has passed the time to live at the test after \<open>k\<close>
  iterations. An exception raised inside an iteration ends the loop there: whatever
  fuel is left, the loop returns the state that the failing iteration left, having
  read the clock once, for the test before that iteration, and never again; the inner
  handler has swallowed the exception when it derives from \<^verbatim>\<open>Exception\<close>. An
  exception of \<^verbatim>\<open>update_parameters\<close> is such an exception of the iteration.
\<close>

theorem run_exception_ends_loop:
  "(run fuel w s = Some (r, s') \<longrightarrow> \<not> is_running s')
   \<and> (max_time_for_training s \<le> time w (time_calls s + 1 + k) - time w (time_calls s) \<longrightarrow>
        (\<exists>r1 s1. run (Suc k) w s = Some (r1, s1) \<and> \<not> is_running s1))
   \<and> (time w (time_calls t) - start_time < max_time_for_training t
        \<and> iteration w (t\<lparr>time_calls := time_calls t + 1\<rparr>) = (Inl e, t') \<longrightarrow>
        while_loop (Suc n) w start_time t = Some (if is_Exception e then Inr () else Inl e, t')
        \<and> time_calls t' = time_calls t + 1)
   \<and> (buffer_size u * count_of_batches u * batch_size (AHP w) \<le> int (length (trajectories u))
        \<and> update_parameters w u = (Inl x, u') \<longrightarrow>
        iteration w u = (Inl x, u'))"
proof (intro conjI impI)
  assume "run fuel w s = Some (r, s')"
  then show "\<not> is_running s'" by (rule run_clears_flag)
next
  assume "max_time_for_training s \<le> time w (time_calls s + 1 + k) - time w (time_calls s)"
  from run_returns [OF this] obtain r1 s1 where "run (Suc k) w s = Some (r1, s1)" by blast
  then show "\<exists>r1 s1. run (Suc k) w s = Some (r1, s1) \<and> \<not> is_running s1"
    using run_clears_flag by blast
next
  assume a: "time w (time_calls t) - start_time < max_time_for_training t
    \<and> iteration w (t\<lparr>time_calls := time_calls t + 1\<rparr>) = (Inl e, t')"
  then show "while_loop (Suc n) w start_time t
      = Some (if is_Exception e then Inr () else Inl e, t')"
    using while_loop_break by blast
  show "time_calls t' = time_calls t + 1"
    using a iteration_frame [of w "t\<lparr>time_calls := time_calls t + 1\<rparr>"] by simp
next
  assume "buffer_size u * count_of_batches u * batch_size (AHP w) \<le> int (length (trajectories u))
    \<and> update_parameters w u = (Inl x, u')"
  then show "iteration w u = (Inl x, u')" by (simp add: iteration_def)
qed

theorem run_exception_ends_loop_witness:
  "run 1 failing_world (example_learner [5, 6, 7] [] [])
     = Some (Inr (), loop_failed\<lparr>is_running := False\<rparr>)
   \<and> \<not> is_running (loop_failed\<lparr>is_running := False\<rparr>)
   \<and> max_time_for_training (example_learner [5, 6, 7] [] [])
       \<le> time failing_world (time_calls (example_learner [5, 6, 7] [] []) + 1 + 2)
         - time failing_world (time_calls (example_learner [5, 6, 7] [] []))
   \<and> (\<exists>r1 s1. run (Suc 2) failing_world (example_learner [5, 6, 7] [] []) = Some (r1, s1)
        \<and> \<not> is_running s1)
   \<and> time failing_world (time_calls loop_entry) - 0 < max_time_for_training loop_entry
   \<and> iteration failing_world (loop_entry\<lparr>time_calls := time_calls loop_entry + 1\<rparr>)
       = (Inl (Exception ''nan''), loop_failed)
   \<and> while_loop (Suc 7) failing_world 0 loop_entry
       = Some (if is_Exception (Exception ''nan'') then Inr () else Inl (Exception ''nan''),
               loop_failed)
   \<and> time_calls loop_failed = time_calls loop_entry + 1
   \<and> buffer_size (loop_entry\<lparr>time_calls := 2\<rparr>) * count_of_batches (loop_entry\<lparr>time_calls := 2\<rparr>)
         * batch_size (AHP failing_world)
       \<le> int (length (trajectories (loop_entry\<lparr>time_calls := 2\<rparr>)))
   \<and> update_parameters failing_world (loop_entry\<lparr>time_calls := 2\<rparr>)
       = (Inl (Exception ''nan''), loop_failed)
   \<and> iteration failing_world (loop_entry\<lparr>time_calls := 2\<rparr>)
       = (Inl (Exception ''nan''), loop_failed)"
proof -
  have h1: "run 1 failing_world (example_learner [5, 6, 7] [] [])
      = Some (Inr (), loop_failed\<lparr>is_running := False\<rparr>)"
    by (rule example_failing_run)
  have h2: "max_time_for_training (example_learner [5, 6, 7] [] [])
      \<le> time failing_world (time_calls (example_learner [5, 6, 7] [] []) + 1 + 2)
        - time failing_world (time_calls (example_learner [5, 6, 7] [] []))"
    by (simp add: failing_world_def example_world_def example_learner_def)
  have h3: "time failing_world (time_calls loop_entry) - 0 < max_time_for_training loop_entry
      \<and> iteration failing_world (loop_entry\<lparr>time_calls := time_calls loop_entry + 1\<rparr>)
        = (Inl (Exception ''nan''), loop_failed)"
    using example_failing_iteration
    by (simp add: failing_world_def example_world_def example_learner_def loop_entry_def)
  have h4: "buffer_size (loop_entry\<lparr>time_calls := 2\<rparr>)
        * count_of_batches (loop_entry\<lparr>time_calls := 2\<rparr>) * batch_size (AHP failing_world)
      \<le> int (length (trajectories (loop_entry\<lparr>time_calls := 2\<rparr>)))
      \<and> update_parameters failing_world (loop_entry\<lparr>time_calls := 2\<rparr>)
        = (Inl (Exception ''nan''), loop_failed)"
    using example_failing_update
    by (simp add: failing_world_def example_world_def example_learner_def loop_entry_def)
  note inst = run_exception_ends_loop [of 1 failing_world "example_learner [5, 6, 7] [] []"
      "Inr ()" "loop_failed\<lparr>is_running := False\<rparr>" 2 loop_entry 0 "Exception ''nan''"
      loop_failed 7 "loop_entry\<lparr>time_calls := 2\<rparr>" "Exception ''nan''" loop_failed]
  note c1 = inst [THEN conjunct1, THEN mp, OF h1]
  note c2 = inst [THEN conjunct2, THEN conjunct1, THEN mp, OF h2]
  note c3 = inst [THEN conjunct2, THEN conjunct2, THEN conjunct1, THEN mp, OF h3]
  note c4 = inst [THEN conjunct2, THEN conjunct2, THEN conjunct2, THEN mp, OF h4]
  show ?thesis
    using h1 c1 h2 c2 h3 c3 h4 c4
    by (simp only: simp_thms)
qed

end
